theory Spec2Isabelle
  imports Main "HOL-Library.Word" "HOL-Library.AList"
begin

unbundle bit_operations_syntax

section \<open>The fuzzing relay of \<^verbatim>\<open>ldap/servers/slapd/fuzzer.c\<close>\<close>

text \<open>
  The file has three functions and three global variables. Every statement of the three
  functions is a call into the C library, so the embedding is a state-passing one: a
  \<open>world\<close> holds the memory of the process (the buffers of the fuzzing driver and the
  three globals), the part of the kernel the calls act on (the descriptor table, the
  connections as their peer sees them, the threads, the diagnostic stream) and the trace
  of the calls made so far. What the environment decides is an argument of the model (an
  \<open>outcome\<close>): what a call returns, whether \<^verbatim>\<open>send\<close> blocks for ever, and how many of
  the bytes it took reach the peer. A call of \<^verbatim>\<open>send\<close> need not return: it can block,
  and it can end the process with \<^verbatim>\<open>SIGPIPE\<close>. The result of \<^verbatim>\<open>fuzzServer\<close> is
  therefore a sum: the value returned, or the reason why nothing was returned.
\<close>

subsection \<open>Bytes, addresses and the socket address structure\<close>

type_synonym byte = "8 word"

text \<open>The address of an object in the memory of the process; \<open>None\<close> is \<^verbatim>\<open>NULL\<close>.\<close>

type_synonym addr = nat

text \<open>
  \<^verbatim>\<open>struct sockaddr_in6\<close>, a local variable of \<^verbatim>\<open>fuzzServer\<close> declared without an
  initialiser. A field that has not been assigned holds no value: \<open>None\<close>.
\<close>

record sockaddr_in6 =
  sin6_family :: "16 word option"
  sin6_port :: "16 word option"
  sin6_flowinfo :: "32 word option"
  sin6_addr :: "byte list option"
  sin6_scope_id :: "32 word option"

definition uninit_sockaddr_in6 :: sockaddr_in6 where
  "uninit_sockaddr_in6 =
     \<lparr>sin6_family = None, sin6_port = None, sin6_flowinfo = None, sin6_addr = None,
      sin6_scope_id = None\<rparr>"

text \<open>
  The layout of the structure (RFC 3493): family and port of two bytes each, four bytes of
  flow information, sixteen bytes of address, four bytes of scope identifier.
\<close>

datatype field = F_family | F_port | F_flowinfo | F_addr | F_scope_id

fun field_offset :: "field \<Rightarrow> nat" where
  "field_offset F_family = 0"
| "field_offset F_port = 2"
| "field_offset F_flowinfo = 4"
| "field_offset F_addr = 8"
| "field_offset F_scope_id = 24"

fun field_size :: "field \<Rightarrow> nat" where
  "field_size F_family = 2"
| "field_size F_port = 2"
| "field_size F_flowinfo = 4"
| "field_size F_addr = 16"
| "field_size F_scope_id = 4"

definition all_fields :: "field list" where
  "all_fields = [F_family, F_port, F_flowinfo, F_addr, F_scope_id]"

definition sizeof_sockaddr_in6 :: nat where
  "sizeof_sockaddr_in6 = sum_list (map field_size all_fields)"

fun field_init :: "sockaddr_in6 \<Rightarrow> field \<Rightarrow> bool" where
  "field_init sa F_family = (sin6_family sa \<noteq> None)"
| "field_init sa F_port = (sin6_port sa \<noteq> None)"
| "field_init sa F_flowinfo = (sin6_flowinfo sa \<noteq> None)"
| "field_init sa F_addr = (sin6_addr sa \<noteq> None)"
| "field_init sa F_scope_id = (sin6_scope_id sa \<noteq> None)"

text \<open>
  A call that is given the structure and a length reads the fields that lie within the
  length; \<open>uninit_reads\<close> are those among them that were never assigned.
\<close>

definition fields_read :: "nat \<Rightarrow> field list" where
  "fields_read len = filter (\<lambda>f. field_offset f + field_size f \<le> len) all_fields"

definition uninit_reads :: "sockaddr_in6 \<Rightarrow> nat \<Rightarrow> field list" where
  "uninit_reads sa len = filter (\<lambda>f. \<not> field_init sa f) (fields_read len)"

subsection \<open>The platform\<close>

text \<open>
  What the system headers and the C library fix and the source file only names: the two
  socket constants, the byte order of the host, and \<^verbatim>\<open>inet_pton\<close>, which gives the
  bytes it writes to its destination (\<open>None\<close> when it rejects the text and writes nothing).
  \<^verbatim>\<open>MSG_NOSIGNAL\<close> is the flag of \<^verbatim>\<open>send\<close> that keeps \<^verbatim>\<open>SIGPIPE\<close> away; the file
  never names it, and passes the flags 0.
\<close>

record platform =
  AF_INET6 :: int
  SOCK_STREAM :: int
  MSG_NOSIGNAL :: int
  little_endian :: bool
  inet_pton :: "int \<Rightarrow> string \<Rightarrow> byte list option"

text \<open>
  \<^verbatim>\<open>htons\<close> turns a 16-bit value of the host into network byte order: the two bytes are
  swapped on a little-endian host and kept on a big-endian one. \<open>in_memory\<close> lists the
  bytes of a 16-bit value of the host in the order of their addresses, which is the order
  in which a port stored in the structure goes out.
\<close>

definition htons :: "platform \<Rightarrow> 16 word \<Rightarrow> 16 word" where
  "htons pf x = (if little_endian pf then push_bit 8 x OR drop_bit 8 x else x)"


text \<open>The sixteen bytes of the IPv6 loopback address \<^verbatim>\<open>::1\<close>.\<close>

definition loopback6 :: "byte list" where
  "loopback6 = [0, 0, 0, 0, 0, 0, 0, 0, 0, 0, 0, 0, 0, 0, 0, 1]"

subsection \<open>Calls, connections, threads and the world\<close>

text \<open>The functions of the file, as the values of function pointers.\<close>

datatype fn = Fn_fuzzServer | Fn_launchFuzzer2 | Fn_launchFuzzer

datatype stream = Stdout | Stderr

text \<open>
  A call into the C library or the fuzzing driver, with its arguments. \<open>Send\<close> carries the
  pointer and the length it was given; \<open>RunDriver\<close> carries what the driver finds behind
  its first two pointers. \<open>Pthread_join\<close> and \<open>Pthread_detach\<close> are calls the file could
  make on a thread it has started.
\<close>

datatype call =
    Socket int int int
  | Connect int sockaddr_in6 nat
  | Send int addr nat int
  | Usleep nat
  | Close int
  | Pthread_create "addr option" fn "addr option"
  | Pthread_join nat
  | Pthread_detach nat
  | Fprintf stream string
  | RunDriver int "string option list" fn

datatype sock_state = Unconnected | Connected nat

text \<open>A connection: where it was addressed, the bytes \<^verbatim>\<open>send\<close> has taken for it
  (\<open>conn_tx\<close>), the bytes its peer has observed (\<open>conn_rx\<close>), and whether the sending
  side has closed it.\<close>

record conn =
  conn_peer :: sockaddr_in6
  conn_tx :: "byte list"
  conn_rx :: "byte list"
  conn_closed :: bool

text \<open>
  What the process does with \<^verbatim>\<open>SIGPIPE\<close>: the default action ends it, or the signal is
  ignored. The file never sets this; whoever starts the relay has.
\<close>

datatype disposition = SIG_DFL | SIG_IGN

text \<open>Why a call did not return.\<close>

datatype stop = Killed_by_SIGPIPE | Blocked_in_send

record thread =
  thr_routine :: fn
  thr_arg :: "addr option"

record world =
  heap :: "(addr \<times> byte list) list"
  arg_array :: "string option list"
  args_ptr :: nat
  args_size :: int
  fds :: "(int \<times> sock_state) list"
  conns :: "conn list"
  threads :: "thread list"
  stderr_out :: "string list"
  sigpipe :: disposition
  trace :: "call list"

text \<open>
  The three globals as their initialisers set them: \<^verbatim>\<open>arg_array\<close> with its closing
  \<^verbatim>\<open>NULL\<close>, \<^verbatim>\<open>args_ptr = &arg_array[0]\<close> as an index into the array, and
  \<^verbatim>\<open>args_size = 5\<close>. No descriptor is open, nothing has happened yet, and
  \<^verbatim>\<open>SIGPIPE\<close> has the default action a process starts with.
\<close>

definition initial :: world where
  "initial =
     \<lparr>heap = [],
      arg_array = [Some ''0'', Some ''corpus'', Some ''-max_len=60000'',
                   Some ''-detect_leaks=0'', Some ''-len_control=20'', None],
      args_ptr = 0,
      args_size = 5,
      fds = [], conns = [], threads = [], stderr_out = [], sigpipe = SIG_DFL, trace = []\<rparr>"

text \<open>
  What the environment decides in one run of \<^verbatim>\<open>fuzzServer\<close>: the results of
  \<^verbatim>\<open>socket\<close>, \<^verbatim>\<open>connect\<close> and \<^verbatim>\<open>close\<close>; for a \<^verbatim>\<open>send\<close> on a connection,
  whether it blocks for ever (the peer takes nothing and the buffers are full), what it
  returns if it does not, and how many of the bytes it took the peer reads before the
  connection is gone.
\<close>

record outcome =
  socket_ret :: int
  connect_ret :: int
  send_blocks :: bool
  send_ret :: int
  peer_reads :: nat
  close_ret :: int

text \<open>What a call that may not return gives: the reason and the world it leaves, or its
  result and the world.\<close>

type_synonym 'a result = "(stop \<times> world) + ('a \<times> world)"

definition world_after :: "'a result \<Rightarrow> world" where
  "world_after res = (case res of Inl (s, w) \<Rightarrow> w | Inr (v, w) \<Rightarrow> w)"

definition returned :: "'a result \<Rightarrow> 'a option" where
  "returned res = (case res of Inl (s, w) \<Rightarrow> None | Inr (v, w) \<Rightarrow> Some v)"

definition stopped :: "'a result \<Rightarrow> stop option" where
  "stopped res = (case res of Inl (s, w) \<Rightarrow> Some s | Inr (v, w) \<Rightarrow> None)"

subsection \<open>The library calls\<close>

definition emit :: "call \<Rightarrow> world \<Rightarrow> world" where
  "emit c w = w\<lparr>trace := trace w @ [c]\<rparr>"

text \<open>The bytes a call finds behind a pointer and a length, when the object is that long.\<close>

definition read_bytes :: "(addr \<times> byte list) list \<Rightarrow> addr \<Rightarrow> nat \<Rightarrow> byte list option" where
  "read_bytes h p n =
     (case map_of h p of
        None \<Rightarrow> None
      | Some bs \<Rightarrow> if n \<le> length bs then Some (take n bs) else None)"

text \<open>The state of a descriptor; a negative number is never an open descriptor.\<close>

definition sock_of :: "world \<Rightarrow> int \<Rightarrow> sock_state option" where
  "sock_of w fd = (if fd < 0 then None else map_of (fds w) fd)"

text \<open>\<^verbatim>\<open>socket\<close>: a result that is not negative is a new descriptor, not yet connected.\<close>

definition socket :: "int \<Rightarrow> int \<Rightarrow> int \<Rightarrow> int \<Rightarrow> world \<Rightarrow> int \<times> world" where
  "socket r domain type protocol w =
     (r, emit (Socket domain type protocol)
           (if 0 \<le> r then w\<lparr>fds := AList.update r Unconnected (fds w)\<rparr> else w))"

text \<open>
  \<^verbatim>\<open>connect\<close>: result 0 on an unconnected descriptor opens a connection to the peer. On
  any other result the descriptor stays as it was: an open socket that is not connected.
  The call returns: an attempt that gets no answer fails when the transport gives up.
\<close>

definition connect :: "int \<Rightarrow> int \<Rightarrow> sockaddr_in6 \<Rightarrow> nat \<Rightarrow> world \<Rightarrow> int \<times> world" where
  "connect r sockfd address addrlen w =
     (r, emit (Connect sockfd address addrlen)
           (if r = 0 \<and> sock_of w sockfd = Some Unconnected
            then w\<lparr>conns := conns w @
                     [\<lparr>conn_peer = address, conn_tx = [], conn_rx = [], conn_closed = False\<rparr>],
                   fds := AList.update sockfd (Connected (length (conns w))) (fds w)\<rparr>
            else w))"

text \<open>
  \<^verbatim>\<open>send\<close> on a stream socket, by the state of the descriptor.
  \<^item> Not an open descriptor: the call fails and returns \<open>-1\<close>.
  \<^item> An open socket that is not connected (a refused \<^verbatim>\<open>connect\<close> leaves it so): the
    pipe is broken. Unless the flags hold \<^verbatim>\<open>MSG_NOSIGNAL\<close>, \<^verbatim>\<open>SIGPIPE\<close> is raised;
    with the default action the process ends inside the call, which never returns. With
    the signal ignored, or kept away by the flag, the call returns \<open>-1\<close>.
  \<^item> A connection: the call blocks for ever when the environment says so and there is
    something to send (a send of no bytes has nothing to wait for). Otherwise it returns:
    \<open>-1\<close> when the buffer cannot be read, else what the environment says; a result \<open>r\<close>
    that is not negative means the first \<open>r\<close> bytes of the buffer were taken, of which
    the peer observes the first \<open>peer_reads\<close>; the rest is lost when the connection goes.
  What a call that blocks had passed on before it blocked is left out.
\<close>

definition deliver :: "nat \<Rightarrow> byte list \<Rightarrow> nat \<Rightarrow> conn list \<Rightarrow> conn list" where
  "deliver k bs n cs =
     (if k < length cs
      then cs[k := (cs ! k)\<lparr>conn_tx := conn_tx (cs ! k) @ bs,
                             conn_rx := conn_rx (cs ! k) @ take n bs\<rparr>]
      else cs)"

definition send ::
    "platform \<Rightarrow> outcome \<Rightarrow> int \<Rightarrow> addr \<Rightarrow> nat \<Rightarrow> int \<Rightarrow> world \<Rightarrow> int result" where
  "send pf oc sockfd buf len flags w =
     (let w' = emit (Send sockfd buf len flags) w
      in case sock_of w sockfd of
           None \<Rightarrow> Inr (- 1, w')
         | Some Unconnected \<Rightarrow>
             if flags AND MSG_NOSIGNAL pf = 0 \<and> sigpipe w = SIG_DFL
             then Inl (Killed_by_SIGPIPE, w')
             else Inr (- 1, w')
         | Some (Connected k) \<Rightarrow>
             if send_blocks oc \<and> 0 < len then Inl (Blocked_in_send, w')
             else (case read_bytes (heap w) buf len of
                     None \<Rightarrow> Inr (- 1, w')
                   | Some bs \<Rightarrow>
                       if 0 \<le> send_ret oc
                       then Inr (send_ret oc,
                                 w'\<lparr>conns := deliver k (take (nat (send_ret oc)) bs)
                                                (peer_reads oc) (conns w)\<rparr>)
                       else Inr (send_ret oc, w')))"

text \<open>\<^verbatim>\<open>usleep\<close> changes nothing the model keeps; its result is never looked at.\<close>

definition usleep :: "nat \<Rightarrow> world \<Rightarrow> int \<times> world" where
  "usleep usec w = (0, emit (Usleep usec) w)"

text \<open>\<^verbatim>\<open>close\<close>: result 0 releases the descriptor and ends its connection, if it has one.\<close>

definition hang_up :: "sock_state \<Rightarrow> conn list \<Rightarrow> conn list" where
  "hang_up st cs =
     (case st of
        Unconnected \<Rightarrow> cs
      | Connected k \<Rightarrow> if k < length cs then cs[k := (cs ! k)\<lparr>conn_closed := True\<rparr>] else cs)"

definition close :: "int \<Rightarrow> int \<Rightarrow> world \<Rightarrow> int \<times> world" where
  "close r fd w =
     (r, emit (Close fd)
           (case sock_of w fd of
              Some st \<Rightarrow>
                if r = 0 then w\<lparr>conns := hang_up st (conns w), fds := AList.delete fd (fds w)\<rparr>
                else w
            | None \<Rightarrow> w))"

text \<open>\<^verbatim>\<open>pthread_create\<close>: result 0 means a new thread runs the start routine.\<close>

definition pthread_create ::
    "int \<Rightarrow> addr option \<Rightarrow> fn \<Rightarrow> addr option \<Rightarrow> world \<Rightarrow> int \<times> world" where
  "pthread_create r attr start_routine arg w =
     (r, emit (Pthread_create attr start_routine arg)
           (if r = 0
            then w\<lparr>threads := threads w @ [\<lparr>thr_routine = start_routine, thr_arg = arg\<rparr>]\<rparr>
            else w))"

definition fprintf :: "stream \<Rightarrow> string \<Rightarrow> world \<Rightarrow> int \<times> world" where
  "fprintf s text w =
     (int (length text),
      emit (Fprintf s text)
        (case s of Stderr \<Rightarrow> w\<lparr>stderr_out := stderr_out w @ [text]\<rparr> | Stdout \<Rightarrow> w))"

text \<open>
  \<^verbatim>\<open>LLVMFuzzerRunDriver(&args_size, &args_ptr, &fuzzServer)\<close>: the driver is handed the
  addresses of two globals and a callback. The call records what stands behind the two
  addresses at that moment: the count, and the array from the element \<^verbatim>\<open>args_ptr\<close>
  points to. The driver's later calls of the callback are steps of their own (see \<open>op\<close>).
\<close>

definition LLVMFuzzerRunDriver :: "fn \<Rightarrow> world \<Rightarrow> world" where
  "LLVMFuzzerRunDriver cb w =
     emit (RunDriver (args_size w) (drop (args_ptr w) (arg_array w)) cb) w"

subsection \<open>The three functions of the file\<close>

text \<open>
  \<^verbatim>\<open>int fuzzServer(const uint8_t *Data, size_t Size)\<close>, statement by statement. No
  result of a call is tested: the descriptor \<^verbatim>\<open>socket\<close> returned goes to the three later
  calls as it is, and the function ends in \<^verbatim>\<open>return 1\<close>. When \<^verbatim>\<open>send\<close> does not
  return, the statements after it are not reached and nothing is returned.
\<close>

definition fuzzServer :: "platform \<Rightarrow> outcome \<Rightarrow> addr \<Rightarrow> nat \<Rightarrow> world \<Rightarrow> int result" where
  "fuzzServer pf oc Data Size w =
     (let ip = ''::1'';
          port = (5555 :: int);
          server_addr0 = uninit_sockaddr_in6;
          (sockfd, w1) = socket (socket_ret oc) (AF_INET6 pf) (SOCK_STREAM pf) 0 w;
          server_addr1 = server_addr0\<lparr>sin6_family := Some (word_of_int (AF_INET6 pf))\<rparr>;
          server_addr2 = server_addr1\<lparr>sin6_port := Some (htons pf (word_of_int port))\<rparr>;
          server_addr = (case inet_pton pf (AF_INET6 pf) ip of
                           Some bs \<Rightarrow> server_addr2\<lparr>sin6_addr := Some bs\<rparr>
                         | None \<Rightarrow> server_addr2);
          (r1, w2) = connect (connect_ret oc) sockfd server_addr sizeof_sockaddr_in6 w1
      in case send pf oc sockfd Data Size 0 w2 of
           Inl gone \<Rightarrow> Inl gone
         | Inr (r2, w3) \<Rightarrow>
             (let (r3, w4) = usleep 1000 w3;
                  (r4, w5) = close (close_ret oc) sockfd w4
              in Inr (1, w5)))"

text \<open>
  \<^verbatim>\<open>void *launchFuzzer2(void *param)\<close>: the body of the background thread. The function
  has no \<^verbatim>\<open>return\<close>, so the model gives back the world only.
\<close>

definition launchFuzzer2 :: "addr option \<Rightarrow> world \<Rightarrow> world" where
  "launchFuzzer2 param w =
     (let (r1, w1) = usleep 15000 w
      in LLVMFuzzerRunDriver Fn_fuzzServer w1)"

text \<open>\<^verbatim>\<open>void launchFuzzer()\<close>; \<open>r\<close> is what \<^verbatim>\<open>pthread_create\<close> returns.\<close>

definition launchFuzzer :: "int \<Rightarrow> world \<Rightarrow> world" where
  "launchFuzzer r w =
     (let (r1, w1) = pthread_create r None Fn_launchFuzzer2 None w;
          (r2, w2) = fprintf Stderr (''fuzzing launched'' @ [CHR 0x0A]) w1
      in w2)"

subsection \<open>Runs of the process\<close>

text \<open>
  The steps a run is made of: the driver placing an input in memory, the driver calling
  the relay on a buffer, the host calling the startup hook, and a started thread running
  its body. A call of the relay that does not return leaves the world in which it stopped.
\<close>

datatype op =
    Prepare addr "byte list"
  | Relay outcome addr nat
  | Hook int
  | Body

fun step :: "platform \<Rightarrow> op \<Rightarrow> world \<Rightarrow> world" where
  "step pf (Prepare a bs) w = w\<lparr>heap := AList.update a bs (heap w)\<rparr>"
| "step pf (Relay oc Data Size) w = world_after (fuzzServer pf oc Data Size w)"
| "step pf (Hook r) w = launchFuzzer r w"
| "step pf Body w = launchFuzzer2 None w"

fun run :: "platform \<Rightarrow> op list \<Rightarrow> world \<Rightarrow> world" where
  "run pf [] w = w"
| "run pf (x # xs) w = run pf xs (step pf x w)"

subsection \<open>Example platform and outcomes\<close>

text \<open>
  Concrete values on which the model is evaluated below. The platform is Linux on a
  little-endian host, where \<^verbatim>\<open>AF_INET6\<close> is 10, \<^verbatim>\<open>SOCK_STREAM\<close> is 1 and
  \<^verbatim>\<open>MSG_NOSIGNAL\<close> is 0x4000. The outcomes are: every call fails, as when descriptors
  have run out (\<open>refused\<close>); descriptor \<open>fd\<close> is handed out and nothing listens, so that
  \<^verbatim>\<open>connect\<close> is refused (\<open>no_listener\<close>); a server listens, \<^verbatim>\<open>send\<close> takes \<open>n\<close> bytes
  and the peer reads them all (\<open>served\<close>); a server listens and takes nothing, so that
  \<^verbatim>\<open>send\<close> blocks (\<open>hung\<close>).
\<close>

definition host :: platform where
  "host =
     \<lparr>AF_INET6 = 10, SOCK_STREAM = 1, MSG_NOSIGNAL = 16384, little_endian = True,
      inet_pton = (\<lambda>af src. if af = 10 \<and> src = ''::1'' then Some loopback6 else None)\<rparr>"

definition refused :: outcome where
  "refused =
     \<lparr>socket_ret = - 1, connect_ret = - 1, send_blocks = False, send_ret = - 1,
      peer_reads = 0, close_ret = - 1\<rparr>"

definition no_listener :: "int \<Rightarrow> outcome" where
  "no_listener fd =
     \<lparr>socket_ret = fd, connect_ret = - 1, send_blocks = False, send_ret = - 1,
      peer_reads = 0, close_ret = 0\<rparr>"

definition served :: "int \<Rightarrow> nat \<Rightarrow> outcome" where
  "served fd n =
     \<lparr>socket_ret = fd, connect_ret = 0, send_blocks = False, send_ret = int n,
      peer_reads = n, close_ret = 0\<rparr>"

definition hung :: "int \<Rightarrow> outcome" where
  "hung fd =
     \<lparr>socket_ret = fd, connect_ret = 0, send_blocks = True, send_ret = 0,
      peer_reads = 0, close_ret = 0\<rparr>"

section \<open>Properties\<close>

subsection \<open>What each call does to each part of the world\<close>

lemma emit_fields:
  "trace (emit c w) = trace w @ [c]"
  "heap (emit c w) = heap w"
  "arg_array (emit c w) = arg_array w"
  "args_ptr (emit c w) = args_ptr w"
  "args_size (emit c w) = args_size w"
  "fds (emit c w) = fds w"
  "conns (emit c w) = conns w"
  "threads (emit c w) = threads w"
  "stderr_out (emit c w) = stderr_out w"
  "sigpipe (emit c w) = sigpipe w"
  "sock_of (emit c w) fd = sock_of w fd"
  by (simp_all add: emit_def sock_of_def)

lemma socket_fields:
  "fst (socket r d t p w) = r"
  "trace (snd (socket r d t p w)) = trace w @ [Socket d t p]"
  "heap (snd (socket r d t p w)) = heap w"
  "arg_array (snd (socket r d t p w)) = arg_array w"
  "args_ptr (snd (socket r d t p w)) = args_ptr w"
  "args_size (snd (socket r d t p w)) = args_size w"
  "threads (snd (socket r d t p w)) = threads w"
  "stderr_out (snd (socket r d t p w)) = stderr_out w"
  "sigpipe (snd (socket r d t p w)) = sigpipe w"
  "conns (snd (socket r d t p w)) = conns w"
  "fds (snd (socket r d t p w)) = (if 0 \<le> r then AList.update r Unconnected (fds w) else fds w)"
  by (simp_all add: socket_def emit_fields)

lemma connect_fields:
  "fst (connect r s a n w) = r"
  "trace (snd (connect r s a n w)) = trace w @ [Connect s a n]"
  "heap (snd (connect r s a n w)) = heap w"
  "arg_array (snd (connect r s a n w)) = arg_array w"
  "args_ptr (snd (connect r s a n w)) = args_ptr w"
  "args_size (snd (connect r s a n w)) = args_size w"
  "threads (snd (connect r s a n w)) = threads w"
  "stderr_out (snd (connect r s a n w)) = stderr_out w"
  "sigpipe (snd (connect r s a n w)) = sigpipe w"
  by (simp_all add: connect_def emit_fields)

lemma send_fields:
  "trace (world_after (send pf oc s b n f w)) = trace w @ [Send s b n f]"
  "heap (world_after (send pf oc s b n f w)) = heap w"
  "arg_array (world_after (send pf oc s b n f w)) = arg_array w"
  "args_ptr (world_after (send pf oc s b n f w)) = args_ptr w"
  "args_size (world_after (send pf oc s b n f w)) = args_size w"
  "threads (world_after (send pf oc s b n f w)) = threads w"
  "stderr_out (world_after (send pf oc s b n f w)) = stderr_out w"
  "sigpipe (world_after (send pf oc s b n f w)) = sigpipe w"
  "fds (world_after (send pf oc s b n f w)) = fds w"
  by (simp_all add: send_def world_after_def emit_def Let_def
        split: option.split sock_state.split)

lemma send_stopped:
  assumes "send pf oc s b n f w = Inl g"
  shows "trace (snd g) = trace w @ [Send s b n f]"
    and "heap (snd g) = heap w" and "arg_array (snd g) = arg_array w"
    and "args_ptr (snd g) = args_ptr w" and "args_size (snd g) = args_size w"
    and "threads (snd g) = threads w" and "stderr_out (snd g) = stderr_out w"
    and "sigpipe (snd g) = sigpipe w" and "fds (snd g) = fds w"
  using send_fields [of pf oc s b n f w] assms
  by (simp_all add: world_after_def case_prod_beta)

lemma send_returned:
  assumes "send pf oc s b n f w = Inr p"
  shows "trace (snd p) = trace w @ [Send s b n f]"
    and "heap (snd p) = heap w" and "arg_array (snd p) = arg_array w"
    and "args_ptr (snd p) = args_ptr w" and "args_size (snd p) = args_size w"
    and "threads (snd p) = threads w" and "stderr_out (snd p) = stderr_out w"
    and "sigpipe (snd p) = sigpipe w" and "fds (snd p) = fds w"
  using send_fields [of pf oc s b n f w] assms
  by (simp_all add: world_after_def case_prod_beta)

lemma usleep_fields:
  "trace (snd (usleep u w)) = trace w @ [Usleep u]"
  "heap (snd (usleep u w)) = heap w"
  "arg_array (snd (usleep u w)) = arg_array w"
  "args_ptr (snd (usleep u w)) = args_ptr w"
  "args_size (snd (usleep u w)) = args_size w"
  "threads (snd (usleep u w)) = threads w"
  "stderr_out (snd (usleep u w)) = stderr_out w"
  "sigpipe (snd (usleep u w)) = sigpipe w"
  "fds (snd (usleep u w)) = fds w"
  "conns (snd (usleep u w)) = conns w"
  by (simp_all add: usleep_def emit_fields)

lemma close_fields:
  "fst (close r s w) = r"
  "trace (snd (close r s w)) = trace w @ [Close s]"
  "heap (snd (close r s w)) = heap w"
  "arg_array (snd (close r s w)) = arg_array w"
  "args_ptr (snd (close r s w)) = args_ptr w"
  "args_size (snd (close r s w)) = args_size w"
  "threads (snd (close r s w)) = threads w"
  "stderr_out (snd (close r s w)) = stderr_out w"
  "sigpipe (snd (close r s w)) = sigpipe w"
  by (simp_all add: close_def emit_fields split: option.split)

lemmas call_fields = socket_fields connect_fields usleep_fields close_fields

lemma relay_frame:
  "heap (world_after (fuzzServer pf oc Data Size w)) = heap w"
  "arg_array (world_after (fuzzServer pf oc Data Size w)) = arg_array w"
  "args_ptr (world_after (fuzzServer pf oc Data Size w)) = args_ptr w"
  "args_size (world_after (fuzzServer pf oc Data Size w)) = args_size w"
  "threads (world_after (fuzzServer pf oc Data Size w)) = threads w"
  "stderr_out (world_after (fuzzServer pf oc Data Size w)) = stderr_out w"
  "sigpipe (world_after (fuzzServer pf oc Data Size w)) = sigpipe w"
  by (auto simp add: fuzzServer_def Let_def case_prod_beta world_after_def call_fields
        split: sum.split dest: send_stopped send_returned)



lemma before_send:
  "sock_of (snd (connect c fd sa n (snd (socket fd d t p w)))) fd =
     (if fd < 0 then None
      else if c = 0 then Some (Connected (length (conns w))) else Some Unconnected)"
  "conns (snd (connect c fd sa n (snd (socket fd d t p w)))) =
     (if 0 \<le> fd \<and> c = 0
      then conns w @ [\<lparr>conn_peer = sa, conn_tx = [], conn_rx = [], conn_closed = False\<rparr>]
      else conns w)"
  "fds (snd (connect c fd sa n (snd (socket fd d t p w)))) =
     (if 0 \<le> fd
      then if c = 0
           then AList.update fd (Connected (length (conns w))) (AList.update fd Unconnected (fds w))
           else AList.update fd Unconnected (fds w)
      else fds w)"
  by (auto simp add: socket_def connect_def emit_def sock_of_def AList.update_conv')

lemma relay_returned:
  "returned (fuzzServer pf oc Data Size w) =
     (if 0 \<le> socket_ret oc \<and>
         (if connect_ret oc = 0 then send_blocks oc \<and> 0 < Size else sigpipe w = SIG_DFL)
      then None else Some 1)"
  by (simp add: fuzzServer_def Let_def case_prod_beta returned_def send_def before_send
        call_fields emit_fields
        split: sum.split option.split sock_state.split)

lemma relay_stopped:
  "stopped (fuzzServer pf oc Data Size w) =
     (if 0 \<le> socket_ret oc
      then if connect_ret oc = 0
           then if send_blocks oc \<and> 0 < Size then Some Blocked_in_send else None
           else if sigpipe w = SIG_DFL then Some Killed_by_SIGPIPE else None
      else None)"
  by (simp add: fuzzServer_def Let_def case_prod_beta stopped_def send_def before_send
        call_fields emit_fields
        split: sum.split option.split sock_state.split)

lemma relay_trace:
  "trace (world_after (fuzzServer pf oc Data Size w)) =
     trace w @
     [Socket (AF_INET6 pf) (SOCK_STREAM pf) 0,
      Connect (socket_ret oc)
        \<lparr>sin6_family = Some (word_of_int (AF_INET6 pf)),
         sin6_port = Some (htons pf 5555),
         sin6_flowinfo = None,
         sin6_addr = inet_pton pf (AF_INET6 pf) ''::1'',
         sin6_scope_id = None\<rparr>
        sizeof_sockaddr_in6,
      Send (socket_ret oc) Data Size 0] @
     (case returned (fuzzServer pf oc Data Size w) of
        Some v \<Rightarrow> [Usleep 1000, Close (socket_ret oc)]
      | None \<Rightarrow> [])"
  by (auto simp add: fuzzServer_def Let_def case_prod_beta world_after_def returned_def
        call_fields uninit_sockaddr_in6_def
        split: sum.split option.split dest: send_stopped(1) send_returned(1))


lemma deliver_last:
  "deliver (length cs) bs n (cs @ [c]) =
     cs @ [c\<lparr>conn_tx := conn_tx c @ bs, conn_rx := conn_rx c @ take n bs\<rparr>]"
  by (simp add: deliver_def)

lemma hang_up_last:
  "hang_up (Connected (length cs)) (cs @ [c]) = cs @ [c\<lparr>conn_closed := True\<rparr>]"
  by (simp add: hang_up_def)

lemma delete_fresh: "map_of al k = None \<Longrightarrow> AList.delete k al = al"
  by (simp add: AList.delete_id map_of_eq_None_iff)

lemma relay_connected:
  assumes "0 \<le> socket_ret oc" and "connect_ret oc = 0" and "close_ret oc = 0"
    and "send_blocks oc = False \<or> Size = 0"
  shows "conns (world_after (fuzzServer pf oc Data Size w)) =
           conns w @
           [\<lparr>conn_peer =
               \<lparr>sin6_family = Some (word_of_int (AF_INET6 pf)),
                sin6_port = Some (htons pf 5555),
                sin6_flowinfo = None,
                sin6_addr = inet_pton pf (AF_INET6 pf) ''::1'',
                sin6_scope_id = None\<rparr>,
             conn_tx =
               (case read_bytes (heap w) Data Size of
                  Some bs \<Rightarrow> if 0 \<le> send_ret oc then take (nat (send_ret oc)) bs else []
                | None \<Rightarrow> []),
             conn_rx =
               (case read_bytes (heap w) Data Size of
                  Some bs \<Rightarrow>
                    if 0 \<le> send_ret oc then take (peer_reads oc) (take (nat (send_ret oc)) bs)
                    else []
                | None \<Rightarrow> []),
             conn_closed = True\<rparr>]"
  using assms
  by (auto simp add: fuzzServer_def Let_def case_prod_beta world_after_def send_def before_send
        call_fields emit_fields close_def usleep_def sock_of_def uninit_sockaddr_in6_def
        AList.update_conv' deliver_last hang_up_last
        split: option.split)

lemma relay_not_connected:
  assumes "socket_ret oc < 0 \<or> connect_ret oc \<noteq> 0"
  shows "conns (world_after (fuzzServer pf oc Data Size w)) = conns w"
  using assms
  by (auto simp add: fuzzServer_def Let_def case_prod_beta world_after_def send_def before_send
        call_fields emit_fields close_def usleep_def sock_of_def hang_up_def
        AList.update_conv'
        split: option.split)

lemma relay_fds:
  assumes "0 \<le> socket_ret oc" and "map_of (fds w) (socket_ret oc) = None"
    and "close_ret oc = 0" and "returned (fuzzServer pf oc Data Size w) = Some v"
  shows "fds (world_after (fuzzServer pf oc Data Size w)) = fds w"
  using assms
  by (auto simp add: fuzzServer_def Let_def case_prod_beta world_after_def returned_def
        send_def before_send
        call_fields emit_fields close_def usleep_def sock_of_def
        AList.update_conv' AList.delete_update_same delete_fresh
        split: option.split if_splits)

subsection \<open>The relay does not keep the pointer\<close>

lemma usleep_trace_reset:
  "(snd (usleep u w))\<lparr>trace := []\<rparr> = (snd (usleep u (w\<lparr>trace := []\<rparr>)))\<lparr>trace := []\<rparr>"
  by (simp add: usleep_def emit_def)

lemma close_trace_reset:
  "(snd (close r s w))\<lparr>trace := []\<rparr> = (snd (close r s (w\<lparr>trace := []\<rparr>)))\<lparr>trace := []\<rparr>"
  by (simp add: close_def emit_def sock_of_def split: option.split)

lemma send_pointer_free:
  assumes "read_bytes (heap w) b n = read_bytes (heap w) b' n"
  shows "map_sum (map_prod id (\<lambda>v. v\<lparr>trace := []\<rparr>)) (map_prod id (\<lambda>v. v\<lparr>trace := []\<rparr>))
           (send pf oc s b n f w) =
         map_sum (map_prod id (\<lambda>v. v\<lparr>trace := []\<rparr>)) (map_prod id (\<lambda>v. v\<lparr>trace := []\<rparr>))
           (send pf oc s b' n f w)"
  using assms
  by (cases "sock_of w s"; cases "send_blocks oc \<and> 0 < n")
     (auto simp add: send_def emit_def Let_def split: option.split sock_state.split)

lemma relay_unfold:
  "fuzzServer pf oc Data Size w =
     (case send pf oc (socket_ret oc) Data Size 0
             (snd (connect (connect_ret oc) (socket_ret oc)
                (case inet_pton pf (AF_INET6 pf) ''::1'' of
                   Some bs \<Rightarrow>
                     uninit_sockaddr_in6
                       \<lparr>sin6_family := Some (word_of_int (AF_INET6 pf)),
                        sin6_port := Some (htons pf (word_of_int 5555)),
                        sin6_addr := Some bs\<rparr>
                 | None \<Rightarrow>
                     uninit_sockaddr_in6
                       \<lparr>sin6_family := Some (word_of_int (AF_INET6 pf)),
                        sin6_port := Some (htons pf (word_of_int 5555))\<rparr>)
                sizeof_sockaddr_in6
                (snd (socket (socket_ret oc) (AF_INET6 pf) (SOCK_STREAM pf) 0 w)))) of
        Inl g \<Rightarrow> Inl g
      | Inr p \<Rightarrow>
          Inr (1, snd (close (close_ret oc) (socket_ret oc) (snd (usleep 1000 (snd p))))))"
  by (simp add: fuzzServer_def Let_def case_prod_beta socket_fields(1) cong: sum.case_cong)

lemma relay_pointer_free:
  assumes "read_bytes (heap w) Data Size = read_bytes (heap w) Data' Size"
  shows "(world_after (fuzzServer pf oc Data Size w))\<lparr>trace := []\<rparr> =
         (world_after (fuzzServer pf oc Data' Size w))\<lparr>trace := []\<rparr>"
proof -
  define w2 where "w2 =
    snd (connect (connect_ret oc) (socket_ret oc)
          (case inet_pton pf (AF_INET6 pf) ''::1'' of
             Some bs \<Rightarrow>
               uninit_sockaddr_in6
                 \<lparr>sin6_family := Some (word_of_int (AF_INET6 pf)),
                  sin6_port := Some (htons pf (word_of_int 5555)),
                  sin6_addr := Some bs\<rparr>
           | None \<Rightarrow>
               uninit_sockaddr_in6
                 \<lparr>sin6_family := Some (word_of_int (AF_INET6 pf)),
                  sin6_port := Some (htons pf (word_of_int 5555))\<rparr>)
          sizeof_sockaddr_in6
          (snd (socket (socket_ret oc) (AF_INET6 pf) (SOCK_STREAM pf) 0 w)))"
  define rest where "rest =
    (\<lambda>v. (snd (close (close_ret oc) (socket_ret oc) (snd (usleep 1000 v))))\<lparr>trace := []\<rparr>)"
  define strip where "strip =
    map_sum (map_prod (id :: stop \<Rightarrow> stop) (\<lambda>v :: world. v\<lparr>trace := []\<rparr>))
            (map_prod (id :: int \<Rightarrow> int) (\<lambda>v :: world. v\<lparr>trace := []\<rparr>))"
  have rest_reset: "rest v = rest (v\<lparr>trace := []\<rparr>)" for v
    unfolding rest_def
    using close_trace_reset [of "close_ret oc" "socket_ret oc" "snd (usleep 1000 v)"]
      close_trace_reset [of "close_ret oc" "socket_ret oc" "snd (usleep 1000 (v\<lparr>trace := []\<rparr>))"]
      usleep_trace_reset [of 1000 v]
    by simp
  have shape: "(world_after (fuzzServer pf oc D Size w))\<lparr>trace := []\<rparr> =
      (case strip (send pf oc (socket_ret oc) D Size 0 w2) of
         Inl g \<Rightarrow> snd g | Inr p \<Rightarrow> rest (snd p))" for D
  proof (cases "send pf oc (socket_ret oc) D Size 0 w2")
    case (Inl g)
    then show ?thesis
      by (simp add: relay_unfold w2_def [symmetric] world_after_def strip_def case_prod_beta)
  next
    case (Inr p)
    then show ?thesis
      using rest_reset [of "snd p"]
      by (simp add: relay_unfold w2_def [symmetric] world_after_def strip_def case_prod_beta
            rest_def)
  qed
  have "heap w2 = heap w"
    by (simp add: w2_def call_fields)
  with assms have "strip (send pf oc (socket_ret oc) Data Size 0 w2) =
                   strip (send pf oc (socket_ret oc) Data' Size 0 w2)"
    unfolding strip_def by (intro send_pointer_free) simp
  then show ?thesis
    by (simp add: shape)
qed

subsection \<open>Bytes, sizes, the hook and the thread body\<close>


lemma sizeof_sockaddr_in6_value: "sizeof_sockaddr_in6 = 28"
  by (simp add: sizeof_sockaddr_in6_def all_fields_def)

lemma read_bytes_whole: "map_of h p = Some B \<Longrightarrow> read_bytes h p (length B) = Some B"
  by (simp add: read_bytes_def)

lemma read_bytes_none: "read_bytes h p 0 = None \<or> read_bytes h p 0 = Some []"
  by (simp add: read_bytes_def split: option.split)

lemma launchFuzzer_fields:
  "trace (launchFuzzer r w) =
     trace w @ [Pthread_create None Fn_launchFuzzer2 None,
                Fprintf Stderr (''fuzzing launched'' @ [CHR 0x0A])]"
  "stderr_out (launchFuzzer r w) = stderr_out w @ [''fuzzing launched'' @ [CHR 0x0A]]"
  "threads (launchFuzzer r w) =
     (if r = 0 then threads w @ [\<lparr>thr_routine = Fn_launchFuzzer2, thr_arg = None\<rparr>]
      else threads w)"
  "heap (launchFuzzer r w) = heap w"
  "arg_array (launchFuzzer r w) = arg_array w"
  "args_ptr (launchFuzzer r w) = args_ptr w"
  "args_size (launchFuzzer r w) = args_size w"
  "fds (launchFuzzer r w) = fds w"
  "conns (launchFuzzer r w) = conns w"
  by (simp_all add: launchFuzzer_def pthread_create_def fprintf_def emit_def)

lemma launchFuzzer2_fields:
  "trace (launchFuzzer2 p w) =
     trace w @ [Usleep 15000,
                RunDriver (args_size w) (drop (args_ptr w) (arg_array w)) Fn_fuzzServer]"
  "arg_array (launchFuzzer2 p w) = arg_array w"
  "args_ptr (launchFuzzer2 p w) = args_ptr w"
  "args_size (launchFuzzer2 p w) = args_size w"
  "heap (launchFuzzer2 p w) = heap w"
  "threads (launchFuzzer2 p w) = threads w"
  "stderr_out (launchFuzzer2 p w) = stderr_out w"
  by (simp_all add: launchFuzzer2_def usleep_def LLVMFuzzerRunDriver_def emit_def)

lemma step_globals:
  "arg_array (step pf x w) = arg_array w"
  "args_ptr (step pf x w) = args_ptr w"
  "args_size (step pf x w) = args_size w"
  by (cases x; simp add: relay_frame launchFuzzer_fields launchFuzzer2_fields)+

lemma run_globals:
  "arg_array (run pf ops w) = arg_array w \<and> args_ptr (run pf ops w) = args_ptr w \<and>
   args_size (run pf ops w) = args_size w"
  by (induction ops arbitrary: w) (simp_all add: step_globals)

lemma host_fields:
  "AF_INET6 host = 10"
  "SOCK_STREAM host = 1"
  "MSG_NOSIGNAL host = 16384"
  "inet_pton host 10 ''::1'' = Some loopback6"
  "htons host 5555 = 45845"
  by (simp_all add: host_def htons_def)

subsection \<open>The relay\<close>

text \<open>
  C1, as amended. For every buffer and every length, \<^verbatim>\<open>fuzzServer\<close> returns exactly when
  its \<^verbatim>\<open>send\<close> returns. It does not return in two cases, both with a descriptor from
  \<^verbatim>\<open>socket\<close>: \<^verbatim>\<open>connect\<close> failed and \<^verbatim>\<open>SIGPIPE\<close> has its default action, so that
  \<^verbatim>\<open>send\<close> with the flags 0 on the unconnected socket ends the process; or \<^verbatim>\<open>connect\<close>
  succeeded and a \<^verbatim>\<open>send\<close> of at least one byte blocks for ever. In every other case it
  returns, and what it returns is the constant 1, whatever the buffer holds and whether
  \<^verbatim>\<open>socket\<close>, \<^verbatim>\<open>connect\<close>, \<^verbatim>\<open>send\<close> and \<^verbatim>\<open>close\<close> succeeded or not.
\<close>

theorem fuzzServer_returns_when_send_does:
  "returned (fuzzServer pf oc Data Size w) =
     (if 0 \<le> socket_ret oc \<and>
         (if connect_ret oc = 0 then send_blocks oc \<and> 0 < Size else sigpipe w = SIG_DFL)
      then None else Some 1) \<and>
   stopped (fuzzServer pf oc Data Size w) =
     (if 0 \<le> socket_ret oc
      then if connect_ret oc = 0
           then if send_blocks oc \<and> 0 < Size then Some Blocked_in_send else None
           else if sigpipe w = SIG_DFL then Some Killed_by_SIGPIPE else None
      else None)"
  by (simp add: relay_returned relay_stopped)

text \<open>
  The claim C1 as it was stated, that every invocation returns, fails twice. With
  descriptor 4 handed out, \<^verbatim>\<open>connect\<close> refused and the default action for
  \<^verbatim>\<open>SIGPIPE\<close>, the relay called on a length of 0 is killed in \<^verbatim>\<open>send\<close>. With a server
  that accepts the connection and then takes nothing, the relay called on three bytes
  stays in \<^verbatim>\<open>send\<close>.
\<close>

theorem fuzzServer_may_not_return:
  "returned (fuzzServer host (no_listener 4) 100 0 initial) = None \<and>
   stopped (fuzzServer host (no_listener 4) 100 0 initial) = Some Killed_by_SIGPIPE \<and>
   returned (fuzzServer host (hung 3) 100 3 (step host (Prepare 100 [1, 2, 3]) initial)) = None \<and>
   stopped (fuzzServer host (hung 3) 100 3 (step host (Prepare 100 [1, 2, 3]) initial)) =
     Some Blocked_in_send"
  by (simp add: relay_returned relay_stopped no_listener_def hung_def initial_def)

text \<open>
  C2, as amended. When nothing listens at the destination, so that \<^verbatim>\<open>socket\<close> or
  \<^verbatim>\<open>connect\<close> fails, the relay still returns 1 provided \<^verbatim>\<open>socket\<close> itself failed or the
  process ignores \<^verbatim>\<open>SIGPIPE\<close>. No result is tested on the way: all five calls are made,
  on the descriptor as \<^verbatim>\<open>socket\<close> returned it, no connection is opened and nothing is
  written to the diagnostic stream.
\<close>

theorem fuzzServer_without_listener:
  assumes "socket_ret oc < 0 \<or> connect_ret oc \<noteq> 0"
    and "socket_ret oc < 0 \<or> sigpipe w = SIG_IGN"
  shows "returned (fuzzServer pf oc Data Size w) = Some 1 \<and>
         trace (world_after (fuzzServer pf oc Data Size w)) =
           trace w @
           [Socket (AF_INET6 pf) (SOCK_STREAM pf) 0,
            Connect (socket_ret oc)
              \<lparr>sin6_family = Some (word_of_int (AF_INET6 pf)),
               sin6_port = Some (htons pf 5555),
               sin6_flowinfo = None,
               sin6_addr = inet_pton pf (AF_INET6 pf) ''::1'',
               sin6_scope_id = None\<rparr>
              sizeof_sockaddr_in6,
            Send (socket_ret oc) Data Size 0,
            Usleep 1000,
            Close (socket_ret oc)] \<and>
         stderr_out (world_after (fuzzServer pf oc Data Size w)) = stderr_out w \<and>
         conns (world_after (fuzzServer pf oc Data Size w)) = conns w"
proof -
  from assms have "returned (fuzzServer pf oc Data Size w) = Some 1"
    by (auto simp add: relay_returned)
  with assms(1) show ?thesis
    by (simp add: relay_trace relay_frame relay_not_connected)
qed

theorem fuzzServer_without_listener_witness:
  "(socket_ret (no_listener 3) < 0 \<or> connect_ret (no_listener 3) \<noteq> 0) \<and>
   (socket_ret (no_listener 3) < 0 \<or> sigpipe (initial\<lparr>sigpipe := SIG_IGN\<rparr>) = SIG_IGN) \<and>
   returned (fuzzServer host (no_listener 3) 100 3 (initial\<lparr>sigpipe := SIG_IGN\<rparr>)) = Some 1 \<and>
   trace (world_after (fuzzServer host (no_listener 3) 100 3 (initial\<lparr>sigpipe := SIG_IGN\<rparr>))) =
     [Socket 10 1 0,
      Connect 3
        \<lparr>sin6_family = Some 10, sin6_port = Some 45845, sin6_flowinfo = None,
         sin6_addr = Some loopback6, sin6_scope_id = None\<rparr> 28,
      Send 3 100 3 0, Usleep 1000, Close 3] \<and>
   conns (world_after (fuzzServer host (no_listener 3) 100 3 (initial\<lparr>sigpipe := SIG_IGN\<rparr>))) = []"
  using fuzzServer_without_listener [of "no_listener 3" "initial\<lparr>sigpipe := SIG_IGN\<rparr>" host 100 3]
  by (simp add: no_listener_def host_fields initial_def sizeof_sockaddr_in6_value)

text \<open>
  The claim C2 as it was stated fails in its own scenario. With descriptor 3 handed out,
  \<^verbatim>\<open>connect\<close> refused and the default action for \<^verbatim>\<open>SIGPIPE\<close>, the process ends in
  \<^verbatim>\<open>send\<close>: \<^verbatim>\<open>usleep\<close>, \<^verbatim>\<open>close\<close> and \<^verbatim>\<open>return 1\<close> are not reached, and the
  descriptor is still in the table.
\<close>

theorem fuzzServer_killed_without_listener:
  "fuzzServer host (no_listener 3) 100 3 (step host (Prepare 100 [1, 2, 3]) initial) =
     Inl (Killed_by_SIGPIPE,
          initial
            \<lparr>heap := [(100, [1, 2, 3])],
             fds := [(3, Unconnected)],
             trace :=
               [Socket 10 1 0,
                Connect 3
                  \<lparr>sin6_family = Some 10, sin6_port = Some 45845, sin6_flowinfo = None,
                   sin6_addr = Some loopback6, sin6_scope_id = None\<rparr> 28,
                Send 3 100 3 0]\<rparr>)"
  by (simp add: fuzzServer_def Let_def socket_def connect_def send_def emit_def sock_of_def
        no_listener_def host_fields initial_def sizeof_sockaddr_in6_value
        uninit_sockaddr_in6_def)


text \<open>
  C4, as amended. With a server listening (a new descriptor from \<^verbatim>\<open>socket\<close>,
  \<^verbatim>\<open>connect\<close> and \<^verbatim>\<open>close\<close> returning 0), a \<^verbatim>\<open>send\<close> that does not block and a buffer
  that holds the bytes \<open>B\<close>, the relay hands the pointer and the full length to a single
  \<^verbatim>\<open>send\<close>, and the peer sees one new connection, then closed, that carries a prefix of
  \<open>B\<close>: of the bytes \<^verbatim>\<open>send\<close> took, those the peer read. The prefix is all of \<open>B\<close> when
  \<^verbatim>\<open>send\<close> takes the full length and the peer reads that much. The connections that were
  there before are as they were, the descriptor is free again and the buffer is untouched,
  so the next invocation starts the same way and its bytes go to a connection of their own.
\<close>

theorem fuzzServer_delivers_prefix:
  assumes "map_of (heap w) Data = Some B" and "Size = length B"
    and "0 \<le> socket_ret oc" and "map_of (fds w) (socket_ret oc) = None"
    and "connect_ret oc = 0" and "send_blocks oc = False" and "close_ret oc = 0"
  shows "returned (fuzzServer pf oc Data Size w) = Some 1 \<and>
         trace (world_after (fuzzServer pf oc Data Size w)) =
           trace w @
           [Socket (AF_INET6 pf) (SOCK_STREAM pf) 0,
            Connect (socket_ret oc)
              \<lparr>sin6_family = Some (word_of_int (AF_INET6 pf)),
               sin6_port = Some (htons pf 5555),
               sin6_flowinfo = None,
               sin6_addr = inet_pton pf (AF_INET6 pf) ''::1'',
               sin6_scope_id = None\<rparr>
              sizeof_sockaddr_in6,
            Send (socket_ret oc) Data (length B) 0,
            Usleep 1000,
            Close (socket_ret oc)] \<and>
         conns (world_after (fuzzServer pf oc Data Size w)) =
           conns w @
           [\<lparr>conn_peer =
               \<lparr>sin6_family = Some (word_of_int (AF_INET6 pf)),
                sin6_port = Some (htons pf 5555),
                sin6_flowinfo = None,
                sin6_addr = inet_pton pf (AF_INET6 pf) ''::1'',
                sin6_scope_id = None\<rparr>,
             conn_tx = take (nat (send_ret oc)) B,
             conn_rx = take (min (peer_reads oc) (nat (send_ret oc))) B,
             conn_closed = True\<rparr>] \<and>
         (send_ret oc = int (length B) \<and> length B \<le> peer_reads oc \<longrightarrow>
            take (min (peer_reads oc) (nat (send_ret oc))) B = B) \<and>
         fds (world_after (fuzzServer pf oc Data Size w)) = fds w \<and>
         heap (world_after (fuzzServer pf oc Data Size w)) = heap w"
proof -
  from assms have ret: "returned (fuzzServer pf oc Data Size w) = Some 1"
    by (simp add: relay_returned)
  from assms have rd: "read_bytes (heap w) Data Size = Some B"
    by (simp add: read_bytes_whole)
  from assms rd have
    "conns (world_after (fuzzServer pf oc Data Size w)) =
       conns w @
       [\<lparr>conn_peer =
           \<lparr>sin6_family = Some (word_of_int (AF_INET6 pf)),
            sin6_port = Some (htons pf 5555),
            sin6_flowinfo = None,
            sin6_addr = inet_pton pf (AF_INET6 pf) ''::1'',
            sin6_scope_id = None\<rparr>,
         conn_tx = take (nat (send_ret oc)) B,
         conn_rx = take (min (peer_reads oc) (nat (send_ret oc))) B,
         conn_closed = True\<rparr>]"
    by (simp add: relay_connected)
  moreover from assms ret have "fds (world_after (fuzzServer pf oc Data Size w)) = fds w"
    by (simp add: relay_fds)
  ultimately show ?thesis
    using ret assms(2) by (simp add: relay_trace relay_frame)
qed

theorem fuzzServer_delivers_prefix_witness:
  "map_of (heap (step host (Prepare 100 [1, 2, 3]) initial)) 100 = Some [1, 2, 3] \<and>
   3 = length [1, 2, 3 :: byte] \<and>
   0 \<le> socket_ret (served 3 3) \<and>
   map_of (fds (step host (Prepare 100 [1, 2, 3]) initial)) (socket_ret (served 3 3)) = None \<and>
   connect_ret (served 3 3) = 0 \<and> send_blocks (served 3 3) = False \<and>
   close_ret (served 3 3) = 0 \<and>
   send_ret (served 3 3) = int (length [1, 2, 3 :: byte]) \<and>
   length [1, 2, 3 :: byte] \<le> peer_reads (served 3 3) \<and>
   conns (run host [Prepare 100 [1, 2, 3], Relay (served 3 3) 100 3,
                    Prepare 100 [7, 8], Relay (served 3 2) 100 2] initial) =
     [\<lparr>conn_peer =
         \<lparr>sin6_family = Some 10, sin6_port = Some 45845, sin6_flowinfo = None,
          sin6_addr = Some loopback6, sin6_scope_id = None\<rparr>,
       conn_tx = [1, 2, 3], conn_rx = [1, 2, 3], conn_closed = True\<rparr>,
      \<lparr>conn_peer =
         \<lparr>sin6_family = Some 10, sin6_port = Some 45845, sin6_flowinfo = None,
          sin6_addr = Some loopback6, sin6_scope_id = None\<rparr>,
       conn_tx = [7, 8], conn_rx = [7, 8], conn_closed = True\<rparr>]"
proof -
  let ?peer = "\<lparr>sin6_family = Some 10, sin6_port = Some 45845, sin6_flowinfo = None,
                 sin6_addr = Some loopback6, sin6_scope_id = None\<rparr>"
  let ?w1 = "step host (Prepare 100 [1, 2, 3]) initial"
  let ?w2 = "world_after (fuzzServer host (served 3 3) 100 3 ?w1)"
  let ?w3 = "step host (Prepare 100 [7, 8]) ?w2"
  have first:
    "conns ?w2 =
       conns ?w1 @ [\<lparr>conn_peer = ?peer, conn_tx = [1, 2, 3], conn_rx = [1, 2, 3],
                     conn_closed = True\<rparr>]"
    and fds_back: "fds ?w2 = fds ?w1" and heap_same: "heap ?w2 = heap ?w1"
    using fuzzServer_delivers_prefix [of ?w1 100 "[1, 2, 3]" 3 "served 3 3" host]
    by (simp_all add: served_def host_fields initial_def)
  have second:
    "conns (world_after (fuzzServer host (served 3 2) 100 2 ?w3)) =
       conns ?w3 @ [\<lparr>conn_peer = ?peer, conn_tx = [7, 8], conn_rx = [7, 8],
                     conn_closed = True\<rparr>]"
    using fuzzServer_delivers_prefix [of ?w3 100 "[7, 8]" 2 "served 3 2" host]
      fds_back heap_same
    by (simp add: served_def host_fields initial_def)
  show ?thesis
    using first second by (simp add: initial_def served_def)
qed

text \<open>
  The claim C4 as it was stated, that with a listening server the peer observes exactly
  \<open>B\<close>, fails on a short write: when \<^verbatim>\<open>send\<close> takes one of the three bytes 1, 2, 3 the
  relay returns 1 without a second \<^verbatim>\<open>send\<close>, and the peer has seen the byte 1 only.
\<close>

theorem fuzzServer_short_write_truncates:
  "conns (world_after (fuzzServer host (served 3 1) 100 3
            (step host (Prepare 100 [1, 2, 3]) initial))) =
     [\<lparr>conn_peer =
         \<lparr>sin6_family = Some 10, sin6_port = Some 45845, sin6_flowinfo = None,
          sin6_addr = Some loopback6, sin6_scope_id = None\<rparr>,
       conn_tx = [1], conn_rx = [1], conn_closed = True\<rparr>] \<and>
   returned (fuzzServer host (served 3 1) 100 3
               (step host (Prepare 100 [1, 2, 3]) initial)) = Some 1"
  by (simp add: relay_connected relay_returned served_def host_fields initial_def
        read_bytes_def)

text \<open>
  C8. A length of 0 takes the same path as any other: the same calls, with a \<^verbatim>\<open>send\<close>
  of zero bytes, and the result 1 whenever the relay returns, which with this length it
  does unless \<^verbatim>\<open>connect\<close> failed on an open socket and \<^verbatim>\<open>SIGPIPE\<close> has its default
  action. With a server listening, the relay returns 1 after all five calls: a connection
  is opened, receives nothing, and is closed, and the descriptor is free again.
\<close>

theorem fuzzServer_empty_input:
  "returned (fuzzServer pf oc Data 0 w) =
     (if 0 \<le> socket_ret oc \<and> (if connect_ret oc = 0 then False else sigpipe w = SIG_DFL)
      then None else Some 1) \<and>
   trace (world_after (fuzzServer pf oc Data 0 w)) =
     trace w @
     [Socket (AF_INET6 pf) (SOCK_STREAM pf) 0,
      Connect (socket_ret oc)
        \<lparr>sin6_family = Some (word_of_int (AF_INET6 pf)),
         sin6_port = Some (htons pf 5555),
         sin6_flowinfo = None,
         sin6_addr = inet_pton pf (AF_INET6 pf) ''::1'',
         sin6_scope_id = None\<rparr>
        sizeof_sockaddr_in6,
      Send (socket_ret oc) Data 0 0] @
     (case returned (fuzzServer pf oc Data 0 w) of
        Some v \<Rightarrow> [Usleep 1000, Close (socket_ret oc)]
      | None \<Rightarrow> []) \<and>
   (0 \<le> socket_ret oc \<and> map_of (fds w) (socket_ret oc) = None \<and>
    connect_ret oc = 0 \<and> close_ret oc = 0 \<longrightarrow>
      returned (fuzzServer pf oc Data 0 w) = Some 1 \<and>
      trace (world_after (fuzzServer pf oc Data 0 w)) =
        trace w @
        [Socket (AF_INET6 pf) (SOCK_STREAM pf) 0,
         Connect (socket_ret oc)
           \<lparr>sin6_family = Some (word_of_int (AF_INET6 pf)),
            sin6_port = Some (htons pf 5555),
            sin6_flowinfo = None,
            sin6_addr = inet_pton pf (AF_INET6 pf) ''::1'',
            sin6_scope_id = None\<rparr>
           sizeof_sockaddr_in6,
         Send (socket_ret oc) Data 0 0,
         Usleep 1000,
         Close (socket_ret oc)] \<and>
      conns (world_after (fuzzServer pf oc Data 0 w)) =
        conns w @
        [\<lparr>conn_peer =
            \<lparr>sin6_family = Some (word_of_int (AF_INET6 pf)),
             sin6_port = Some (htons pf 5555),
             sin6_flowinfo = None,
             sin6_addr = inet_pton pf (AF_INET6 pf) ''::1'',
             sin6_scope_id = None\<rparr>,
          conn_tx = [], conn_rx = [], conn_closed = True\<rparr>] \<and>
      fds (world_after (fuzzServer pf oc Data 0 w)) = fds w)"
proof -
  have ret: "returned (fuzzServer pf oc Data 0 w) =
     (if 0 \<le> socket_ret oc \<and> (if connect_ret oc = 0 then False else sigpipe w = SIG_DFL)
      then None else Some 1)"
    by (simp add: relay_returned)
  have served: "returned (fuzzServer pf oc Data 0 w) = Some 1 \<and>
      conns (world_after (fuzzServer pf oc Data 0 w)) =
        conns w @
        [\<lparr>conn_peer =
            \<lparr>sin6_family = Some (word_of_int (AF_INET6 pf)),
             sin6_port = Some (htons pf 5555),
             sin6_flowinfo = None,
             sin6_addr = inet_pton pf (AF_INET6 pf) ''::1'',
             sin6_scope_id = None\<rparr>,
          conn_tx = [], conn_rx = [], conn_closed = True\<rparr>] \<and>
      fds (world_after (fuzzServer pf oc Data 0 w)) = fds w"
    if "0 \<le> socket_ret oc" "map_of (fds w) (socket_ret oc) = None"
      "connect_ret oc = 0" "close_ret oc = 0"
  proof -
    from that have r: "returned (fuzzServer pf oc Data 0 w) = Some 1"
      by (simp add: relay_returned)
    from that r have "fds (world_after (fuzzServer pf oc Data 0 w)) = fds w"
      by (simp add: relay_fds)
    with that r read_bytes_none [of "heap w" Data] show ?thesis
      by (auto simp add: relay_connected)
  qed
  show ?thesis
    using ret served by (auto simp add: relay_trace)
qed

theorem fuzzServer_empty_input_witness:
  "0 \<le> socket_ret (served 3 0) \<and> map_of (fds initial) (socket_ret (served 3 0)) = None \<and>
   connect_ret (served 3 0) = 0 \<and> close_ret (served 3 0) = 0 \<and>
   returned (fuzzServer host (served 3 0) 100 0 initial) = Some 1 \<and>
   conns (world_after (fuzzServer host (served 3 0) 100 0 initial)) =
     [\<lparr>conn_peer =
         \<lparr>sin6_family = Some 10, sin6_port = Some 45845, sin6_flowinfo = None,
          sin6_addr = Some loopback6, sin6_scope_id = None\<rparr>,
       conn_tx = [], conn_rx = [], conn_closed = True\<rparr>] \<and>
   fds (world_after (fuzzServer host (served 3 0) 100 0 initial)) = []"
  using fuzzServer_empty_input [of host "served 3 0" 100 initial]
  by (simp add: served_def host_fields initial_def)

text \<open>
  C9. The relay changes no memory of the process: the buffers (its input among them), the
  three globals of the driver configuration, the threads, the diagnostic stream and the
  action for \<^verbatim>\<open>SIGPIPE\<close> are after the call what they were before, and when the relay
  returns and \<^verbatim>\<open>close\<close> has succeeded on the new descriptor the descriptor table is too.
  Nothing of the pointer stays behind: called on another address behind which the same
  bytes can be read, the relay returns the same and leaves the same world, the record of
  the calls apart.
\<close>

theorem fuzzServer_frame:
  "heap (world_after (fuzzServer pf oc Data Size w)) = heap w \<and>
   arg_array (world_after (fuzzServer pf oc Data Size w)) = arg_array w \<and>
   args_ptr (world_after (fuzzServer pf oc Data Size w)) = args_ptr w \<and>
   args_size (world_after (fuzzServer pf oc Data Size w)) = args_size w \<and>
   threads (world_after (fuzzServer pf oc Data Size w)) = threads w \<and>
   stderr_out (world_after (fuzzServer pf oc Data Size w)) = stderr_out w \<and>
   sigpipe (world_after (fuzzServer pf oc Data Size w)) = sigpipe w \<and>
   (0 \<le> socket_ret oc \<and> map_of (fds w) (socket_ret oc) = None \<and> close_ret oc = 0 \<and>
    returned (fuzzServer pf oc Data Size w) = Some 1 \<longrightarrow>
      fds (world_after (fuzzServer pf oc Data Size w)) = fds w) \<and>
   (read_bytes (heap w) Data Size = read_bytes (heap w) Data' Size \<longrightarrow>
      (world_after (fuzzServer pf oc Data Size w))\<lparr>trace := []\<rparr> =
      (world_after (fuzzServer pf oc Data' Size w))\<lparr>trace := []\<rparr> \<and>
      returned (fuzzServer pf oc Data Size w) = returned (fuzzServer pf oc Data' Size w))"
  using relay_pointer_free [of w Data Size Data' pf oc]
  by (simp add: relay_frame relay_fds relay_returned)

theorem fuzzServer_frame_witness:
  "0 \<le> socket_ret (served 3 2) \<and> map_of (fds initial) (socket_ret (served 3 2)) = None \<and>
   close_ret (served 3 2) = 0 \<and>
   returned (fuzzServer host (served 3 2) 100 2 initial) = Some 1 \<and>
   fds (world_after (fuzzServer host (served 3 2) 100 2 initial)) = fds initial \<and>
   read_bytes (heap (initial\<lparr>heap := [(100, [7, 8]), (200, [7, 8])]\<rparr>)) 100 2 =
   read_bytes (heap (initial\<lparr>heap := [(100, [7, 8]), (200, [7, 8])]\<rparr>)) 200 2 \<and>
   (world_after (fuzzServer host (served 3 2) 100 2
      (initial\<lparr>heap := [(100, [7, 8]), (200, [7, 8])]\<rparr>)))\<lparr>trace := []\<rparr> =
   (world_after (fuzzServer host (served 3 2) 200 2
      (initial\<lparr>heap := [(100, [7, 8]), (200, [7, 8])]\<rparr>)))\<lparr>trace := []\<rparr>"
  using fuzzServer_frame [of host "served 3 2" 100 2 initial]
    fuzzServer_frame [of host "served 3 2" 100 2
      "initial\<lparr>heap := [(100, [7, 8]), (200, [7, 8])]\<rparr>" 200]
  by (simp add: served_def initial_def read_bytes_def relay_returned)

text \<open>
  C10. In every invocation the structure handed to \<^verbatim>\<open>connect\<close>, with the size of the
  whole structure as its length, has the family, the port and (as \<^verbatim>\<open>inet_pton\<close> accepts
  the text) the address assigned and nothing else: the flow information and the scope
  identifier lie within the length and were never assigned. What \<^verbatim>\<open>socket\<close> returned
  goes to \<^verbatim>\<open>connect\<close> and \<^verbatim>\<open>send\<close>, and when \<^verbatim>\<open>send\<close> returns to \<^verbatim>\<open>close\<close>,
  untested; when it is \<open>-1\<close> all three calls are made on \<open>-1\<close>.
\<close>

theorem fuzzServer_unchecked_arguments:
  assumes "inet_pton pf (AF_INET6 pf) ''::1'' = Some bs"
  shows "trace (world_after (fuzzServer pf oc Data Size w)) =
           trace w @
           [Socket (AF_INET6 pf) (SOCK_STREAM pf) 0,
            Connect (socket_ret oc)
              \<lparr>sin6_family = Some (word_of_int (AF_INET6 pf)),
               sin6_port = Some (htons pf 5555),
               sin6_flowinfo = None,
               sin6_addr = Some bs,
               sin6_scope_id = None\<rparr>
              sizeof_sockaddr_in6,
            Send (socket_ret oc) Data Size 0] @
           (case returned (fuzzServer pf oc Data Size w) of
              Some v \<Rightarrow> [Usleep 1000, Close (socket_ret oc)]
            | None \<Rightarrow> []) \<and>
         filter (field_init
                   \<lparr>sin6_family = Some (word_of_int (AF_INET6 pf)),
                    sin6_port = Some (htons pf 5555),
                    sin6_flowinfo = None,
                    sin6_addr = Some bs,
                    sin6_scope_id = None\<rparr>) all_fields = [F_family, F_port, F_addr] \<and>
         uninit_reads
           \<lparr>sin6_family = Some (word_of_int (AF_INET6 pf)),
            sin6_port = Some (htons pf 5555),
            sin6_flowinfo = None,
            sin6_addr = Some bs,
            sin6_scope_id = None\<rparr> sizeof_sockaddr_in6 = [F_flowinfo, F_scope_id] \<and>
         drop (Suc (length (trace w)))
           (trace (world_after (fuzzServer pf (oc\<lparr>socket_ret := - 1\<rparr>) Data Size w))) =
           [Connect (- 1)
              \<lparr>sin6_family = Some (word_of_int (AF_INET6 pf)),
               sin6_port = Some (htons pf 5555),
               sin6_flowinfo = None,
               sin6_addr = Some bs,
               sin6_scope_id = None\<rparr>
              sizeof_sockaddr_in6,
            Send (- 1) Data Size 0,
            Usleep 1000,
            Close (- 1)]"
  using assms
  by (simp add: relay_trace relay_returned uninit_reads_def fields_read_def all_fields_def
        sizeof_sockaddr_in6_def)

theorem fuzzServer_unchecked_arguments_witness:
  "inet_pton host (AF_INET6 host) ''::1'' = Some loopback6 \<and>
   trace (world_after (fuzzServer host refused 100 3 initial)) =
     [Socket 10 1 0,
      Connect (- 1)
        \<lparr>sin6_family = Some 10, sin6_port = Some 45845, sin6_flowinfo = None,
         sin6_addr = Some loopback6, sin6_scope_id = None\<rparr> 28,
      Send (- 1) 100 3 0, Usleep 1000, Close (- 1)] \<and>
   uninit_reads
     \<lparr>sin6_family = Some 10, sin6_port = Some 45845, sin6_flowinfo = None,
      sin6_addr = Some loopback6, sin6_scope_id = None\<rparr> 28 = [F_flowinfo, F_scope_id]"
  using fuzzServer_unchecked_arguments [of host loopback6 refused 100 3 initial]
  by (simp add: refused_def host_fields initial_def sizeof_sockaddr_in6_value relay_returned)

subsection \<open>The driver configuration and the startup hook\<close>

text \<open>
  C5. After any run from the initial state, the thread body hands the driver the count 5
  and the array \<^verbatim>\<open>"0"\<close>, \<^verbatim>\<open>"corpus"\<close>, \<^verbatim>\<open>"-max_len=60000"\<close>, \<^verbatim>\<open>"-detect_leaks=0"\<close>,
  \<^verbatim>\<open>"-len_control=20"\<close>, closed by \<^verbatim>\<open>NULL\<close>, with \<^verbatim>\<open>fuzzServer\<close> as the callback;
  the first 5 entries of the array are the five arguments.
\<close>

theorem launchFuzzer2_driver_arguments:
  "trace (launchFuzzer2 param (run pf ops initial)) =
     trace (run pf ops initial) @
     [Usleep 15000,
      RunDriver 5
        [Some ''0'', Some ''corpus'', Some ''-max_len=60000'', Some ''-detect_leaks=0'',
         Some ''-len_control=20'', None]
        Fn_fuzzServer] \<and>
   take (nat (args_size (run pf ops initial)))
     (drop (args_ptr (run pf ops initial)) (arg_array (run pf ops initial))) =
     map Some [''0'', ''corpus'', ''-max_len=60000'', ''-detect_leaks=0'', ''-len_control=20'']"
  by (simp add: launchFuzzer2_fields run_globals initial_def)

text \<open>
  C6, as amended. Every call of \<^verbatim>\<open>launchFuzzer\<close> makes exactly one \<^verbatim>\<open>pthread_create\<close>,
  for \<^verbatim>\<open>launchFuzzer2\<close> with \<^verbatim>\<open>NULL\<close> attributes and argument, and then writes exactly
  one message, \<^verbatim>\<open>fuzzing launched\<close> and a newline, to the diagnostic stream, whatever
  \<^verbatim>\<open>pthread_create\<close> returned; it makes no other call, so it neither joins nor detaches
  the thread. A thread is started when \<^verbatim>\<open>pthread_create\<close> returns 0 and none otherwise.
  A second call does the same again: two calls that succeed leave two threads.
\<close>

theorem launchFuzzer_one_request_one_message:
  "trace (launchFuzzer r w) =
     trace w @ [Pthread_create None Fn_launchFuzzer2 None,
                Fprintf Stderr (''fuzzing launched'' @ [CHR 0x0A])] \<and>
   stderr_out (launchFuzzer r w) = stderr_out w @ [''fuzzing launched'' @ [CHR 0x0A]] \<and>
   threads (launchFuzzer r w) =
     (if r = 0 then threads w @ [\<lparr>thr_routine = Fn_launchFuzzer2, thr_arg = None\<rparr>]
      else threads w) \<and>
   threads (launchFuzzer 0 (launchFuzzer 0 w)) =
     threads w @ [\<lparr>thr_routine = Fn_launchFuzzer2, thr_arg = None\<rparr>,
                  \<lparr>thr_routine = Fn_launchFuzzer2, thr_arg = None\<rparr>] \<and>
   trace (launchFuzzer r' (launchFuzzer r w)) =
     trace w @ [Pthread_create None Fn_launchFuzzer2 None,
                Fprintf Stderr (''fuzzing launched'' @ [CHR 0x0A]),
                Pthread_create None Fn_launchFuzzer2 None,
                Fprintf Stderr (''fuzzing launched'' @ [CHR 0x0A])]"
  by (simp add: launchFuzzer_fields)

text \<open>
  The claim C6 as it was stated, that every call starts exactly one new thread, fails
  when \<^verbatim>\<open>pthread_create\<close> fails: with the result 11 (\<^verbatim>\<open>EAGAIN\<close> on Linux) in the initial
  state no thread is added, and the message is written all the same.
\<close>

theorem launchFuzzer_thread_not_started:
  "threads (launchFuzzer 11 initial) = threads initial \<and>
   length (threads (launchFuzzer 11 initial)) \<noteq> length (threads initial) + 1 \<and>
   stderr_out (launchFuzzer 11 initial) = [''fuzzing launched'' @ [CHR 0x0A]]"
  by (simp add: launchFuzzer_fields initial_def)

text \<open>
  C7. No function of the file assigns to \<^verbatim>\<open>arg_array\<close>, \<^verbatim>\<open>args_ptr\<close> or
  \<^verbatim>\<open>args_size\<close>: the three are the same after the relay, after the startup hook, after
  the thread body, and so after any run. What the thread body hands to the driver after
  a run is what it would have handed over before it.
\<close>

theorem driver_configuration_never_modified:
  "arg_array (world_after (fuzzServer pf oc Data Size w)) = arg_array w \<and>
   args_ptr (world_after (fuzzServer pf oc Data Size w)) = args_ptr w \<and>
   args_size (world_after (fuzzServer pf oc Data Size w)) = args_size w \<and>
   arg_array (launchFuzzer r w) = arg_array w \<and>
   args_ptr (launchFuzzer r w) = args_ptr w \<and>
   args_size (launchFuzzer r w) = args_size w \<and>
   arg_array (launchFuzzer2 param w) = arg_array w \<and>
   args_ptr (launchFuzzer2 param w) = args_ptr w \<and>
   args_size (launchFuzzer2 param w) = args_size w \<and>
   arg_array (run pf ops w) = arg_array w \<and>
   args_ptr (run pf ops w) = args_ptr w \<and>
   args_size (run pf ops w) = args_size w \<and>
   last (trace (launchFuzzer2 param (run pf ops w))) =
     RunDriver (args_size w) (drop (args_ptr w) (arg_array w)) Fn_fuzzServer"
  by (simp add: relay_frame launchFuzzer_fields launchFuzzer2_fields run_globals)

end
